theory Spec2Isabelle
  imports Complex_Main
begin

section \<open>The citation-network example scripts\<close>

text \<open>
  The repository holds two scripts, \<^verbatim>\<open>citation_gat.py\<close> and \<^verbatim>\<open>citation_arma.py\<close>.
  Each one loads the dataset, builds a two-layer model with the functional API
  (a layer object is called on symbolic tensors and returns a symbolic tensor),
  compiles it, fits it with an early-stopping callback and evaluates it.
  The symbolic tensors are modelled as a datatype, the statements of the scripts
  as definitions that keep the scripts' variable names (prefixed by the script).
\<close>

subsection \<open>Layers and symbolic tensors\<close>

datatype activation = Elu | Softmax

record GraphAttention_args =
  ga_channels :: nat
  ga_attn_heads :: nat
  ga_concat_heads :: bool
  ga_dropout_rate :: real
  ga_activation :: activation
  ga_kernel_regularizer :: real
  ga_attn_kernel_regularizer :: real

record ARMAConv_args =
  ac_channels :: nat
  ac_iterations :: nat
  ac_order :: nat
  ac_share_weights :: bool
  ac_dropout_rate :: real
  ac_activation :: activation
  ac_gcn_activation :: "activation option"
  ac_kernel_regularizer :: real

datatype layer =
    Dropout real
  | GraphAttention GraphAttention_args
  | ARMAConv ARMAConv_args

text \<open>
  \<open>Input name width sparse\<close> is \<^verbatim>\<open>Input(shape=(width, ), sparse=sparse)\<close> bound to the
  Python variable \<open>name\<close>; \<open>Call l ts\<close> is the layer \<open>l\<close> called on the tensors \<open>ts\<close>.
\<close>

datatype tensor =
    Input string nat bool
  | Call layer "tensor list"

record model =
  inputs :: "tensor list"
  outputs :: tensor

text \<open>What the scripts read from the dataset object.\<close>

record dataset =
  N :: nat
  F :: nat
  n_out :: nat
  mask_tr :: "bool list"
  mask_va :: "bool list"
  mask_te :: "bool list"

subsection \<open>\<^verbatim>\<open>citation_gat.py\<close>\<close>

definition gat_channels :: nat where "gat_channels = 8"
definition gat_n_attn_heads :: nat where "gat_n_attn_heads = 8"
definition gat_dropout :: real where "gat_dropout = 6 / 10"
definition gat_l2_reg :: real where "gat_l2_reg = 5 / 10 ^ 6"
definition gat_learning_rate :: real where "gat_learning_rate = 5 / 10 ^ 3"
definition gat_epochs :: nat where "gat_epochs = 20000"
definition gat_patience :: nat where "gat_patience = 100"

definition gat_X_in :: "dataset \<Rightarrow> tensor" where
  "gat_X_in d = Input ''X_in'' (F d) False"

definition gat_A_in :: "dataset \<Rightarrow> tensor" where
  "gat_A_in d = Input ''A_in'' (N d) True"

definition gat_dropout_1 :: "dataset \<Rightarrow> tensor" where
  "gat_dropout_1 d = Call (Dropout gat_dropout) [gat_X_in d]"

definition gat_layer_1 :: layer where
  "gat_layer_1 = GraphAttention
     \<lparr>ga_channels = gat_channels,
      ga_attn_heads = gat_n_attn_heads,
      ga_concat_heads = True,
      ga_dropout_rate = gat_dropout,
      ga_activation = Elu,
      ga_kernel_regularizer = gat_l2_reg,
      ga_attn_kernel_regularizer = gat_l2_reg\<rparr>"

definition gat_graph_attention_1 :: "dataset \<Rightarrow> tensor" where
  "gat_graph_attention_1 d = Call gat_layer_1 [gat_dropout_1 d, gat_A_in d]"

definition gat_dropout_2 :: "dataset \<Rightarrow> tensor" where
  "gat_dropout_2 d = Call (Dropout gat_dropout) [gat_graph_attention_1 d]"

definition gat_layer_2 :: "dataset \<Rightarrow> layer" where
  "gat_layer_2 d = GraphAttention
     \<lparr>ga_channels = n_out d,
      ga_attn_heads = 1,
      ga_concat_heads = False,
      ga_dropout_rate = gat_dropout,
      ga_activation = Softmax,
      ga_kernel_regularizer = gat_l2_reg,
      ga_attn_kernel_regularizer = gat_l2_reg\<rparr>"

definition gat_graph_attention_2 :: "dataset \<Rightarrow> tensor" where
  "gat_graph_attention_2 d = Call (gat_layer_2 d) [gat_dropout_2 d, gat_A_in d]"

definition gat_model :: "dataset \<Rightarrow> model" where
  "gat_model d = \<lparr>inputs = [gat_X_in d, gat_A_in d], outputs = gat_graph_attention_2 d\<rparr>"

subsection \<open>\<^verbatim>\<open>citation_arma.py\<close>\<close>

definition arma_channels :: nat where "arma_channels = 16"
definition arma_iterations :: nat where "arma_iterations = 1"
definition arma_order :: nat where "arma_order = 2"
definition arma_share_weights :: bool where "arma_share_weights = True"
definition arma_dropout_skip :: real where "arma_dropout_skip = 75 / 100"
definition arma_dropout :: real where "arma_dropout = 5 / 10"
definition arma_l2_reg :: real where "arma_l2_reg = 5 / 10 ^ 5"
definition arma_learning_rate :: real where "arma_learning_rate = 1 / 10 ^ 2"
definition arma_epochs :: nat where "arma_epochs = 20000"
definition arma_patience :: nat where "arma_patience = 100"

definition arma_X_in :: "dataset \<Rightarrow> tensor" where
  "arma_X_in d = Input ''X_in'' (F d) False"

definition arma_fltr_in :: "dataset \<Rightarrow> tensor" where
  "arma_fltr_in d = Input ''fltr_in'' (N d) True"

definition arma_layer_1 :: layer where
  "arma_layer_1 = ARMAConv
     \<lparr>ac_channels = arma_channels,
      ac_iterations = arma_iterations,
      ac_order = arma_order,
      ac_share_weights = arma_share_weights,
      ac_dropout_rate = arma_dropout_skip,
      ac_activation = Elu,
      ac_gcn_activation = Some Elu,
      ac_kernel_regularizer = arma_l2_reg\<rparr>"

definition arma_gc_1 :: "dataset \<Rightarrow> tensor" where
  "arma_gc_1 d = Call arma_layer_1 [arma_X_in d, arma_fltr_in d]"

text \<open>The script binds \<^verbatim>\<open>gc_2\<close> twice: first to the dropout, then to the output layer.\<close>

definition arma_gc_2_dropout :: "dataset \<Rightarrow> tensor" where
  "arma_gc_2_dropout d = Call (Dropout arma_dropout) [arma_gc_1 d]"

definition arma_layer_2 :: "dataset \<Rightarrow> layer" where
  "arma_layer_2 d = ARMAConv
     \<lparr>ac_channels = n_out d,
      ac_iterations = 1,
      ac_order = 1,
      ac_share_weights = arma_share_weights,
      ac_dropout_rate = arma_dropout_skip,
      ac_activation = Softmax,
      ac_gcn_activation = None,
      ac_kernel_regularizer = arma_l2_reg\<rparr>"

definition arma_gc_2 :: "dataset \<Rightarrow> tensor" where
  "arma_gc_2 d = Call (arma_layer_2 d) [arma_gc_2_dropout d, arma_fltr_in d]"

definition arma_model :: "dataset \<Rightarrow> model" where
  "arma_model d = \<lparr>inputs = [arma_X_in d, arma_fltr_in d], outputs = arma_gc_2 d\<rparr>"

subsection \<open>Reading a model graph\<close>

text \<open>
  Every layer of the scripts takes the node features as its first argument (the
  convolutions take the propagation operator as the second). \<open>feature_source\<close> follows
  the first arguments back to the input the features come from, \<open>feature_path\<close> lists
  the layers the features go through, first layer first.
\<close>

fun feature_source :: "tensor \<Rightarrow> tensor" where
  "feature_source (Input name width sp) = Input name width sp"
| "feature_source (Call l []) = Call l []"
| "feature_source (Call l (t # ts)) = feature_source t"

fun feature_path :: "tensor \<Rightarrow> layer list" where
  "feature_path (Input name width sp) = []"
| "feature_path (Call l []) = [l]"
| "feature_path (Call l (t # ts)) = feature_path t @ [l]"

fun is_conv :: "layer \<Rightarrow> bool" where
  "is_conv (Dropout r) = False"
| "is_conv (GraphAttention a) = True"
| "is_conv (ARMAConv a) = True"

text \<open>
  For each convolution of the graph, first layer first: the rate of the \<open>Dropout\<close> layer
  whose output is its feature argument, or \<open>None\<close> when its feature argument is not the
  output of a \<open>Dropout\<close> layer.
\<close>

fun feature_dropout :: "tensor \<Rightarrow> real option" where
  "feature_dropout (Call (Dropout r) ts) = Some r"
| "feature_dropout t = None"

fun conv_feature_dropouts :: "tensor \<Rightarrow> real option list" where
  "conv_feature_dropouts (Input name width sp) = []"
| "conv_feature_dropouts (Call l []) = []"
| "conv_feature_dropouts (Call l (t # ts)) =
     conv_feature_dropouts t @ (if is_conv l then [feature_dropout t] else [])"

text \<open>
  The value of a tensor, for any meaning of the three layer classes (\<open>'v\<close> is the type
  of concrete tensors, \<open>env\<close> gives the values fed to the inputs). A call with the wrong
  number of arguments has no value.
\<close>

record 'v layer_semantics =
  dropout_call :: "real \<Rightarrow> 'v \<Rightarrow> 'v"
  graph_attention_call :: "GraphAttention_args \<Rightarrow> 'v \<Rightarrow> 'v \<Rightarrow> 'v"
  arma_conv_call :: "ARMAConv_args \<Rightarrow> 'v \<Rightarrow> 'v \<Rightarrow> 'v"

fun run :: "'v layer_semantics \<Rightarrow> (string \<Rightarrow> 'v) \<Rightarrow> tensor \<Rightarrow> 'v option" where
  "run L env (Input name width sp) = Some (env name)"
| "run L env (Call (Dropout r) [t]) = map_option (dropout_call L r) (run L env t)"
| "run L env (Call (GraphAttention a) [t, u]) =
     (case (run L env t, run L env u) of
        (Some x, Some y) \<Rightarrow> Some (graph_attention_call L a x y)
      | _ \<Rightarrow> None)"
| "run L env (Call (ARMAConv a) [t, u]) =
     (case (run L env t, run L env u) of
        (Some x, Some y) \<Rightarrow> Some (arma_conv_call L a x y)
      | _ \<Rightarrow> None)"
| "run L env (Call l ts) = None"

section \<open>Training with early stopping\<close>

text \<open>
  Both scripts train with
  \<^verbatim>\<open>model.fit(loader_tr.tf(), ..., validation_data=loader_va.tf(), ..., epochs=epochs,
            callbacks=[EarlyStopping(patience=patience, restore_best_weights=True)])\<close>.
  The fit loop and the early-stopping callback are the deep-learning framework's
  (\<^verbatim>\<open>tensorflow.keras\<close>): the scripts import them, and the repository's files do not
  hold them.
\<close>

text \<open>
  Modelled from the spec: the state of the trainer and of the early-stopping callback,
  missing with the framework. The spec (3, 4.4) has model parameters that the optimizer
  step updates and a callback that tracks the best validation loss seen, counts the
  epochs without improvement and keeps the parameter snapshot of the best epoch. The
  state of the model is its parameters together with the state of the optimizer; a
  snapshot holds the parameters only. Losses are reals: the callback only compares them,
  and a loss that is not a number is left out.
\<close>

record ('w, 'o) model_state =
  params :: 'w
  optimizer :: 'o

record EarlyStopping_args =
  es_patience :: nat
  es_restore_best_weights :: bool

record 'w early_stopping =
  best :: "real option"
  wait :: nat
  best_weights :: "'w option"

datatype training_end = EarlyStopped nat | EpochLimitReached

text \<open>Before the first epoch no loss has been seen: the first loss is an improvement.\<close>

definition improved :: "real \<Rightarrow> real option \<Rightarrow> bool" where
  "improved current b = (case b of None \<Rightarrow> True | Some v \<Rightarrow> current < v)"

definition restore :: "'w option \<Rightarrow> ('w, 'o) model_state \<Rightarrow> ('w, 'o) model_state" where
  "restore snapshot m = (case snapshot of None \<Rightarrow> m | Some w \<Rightarrow> m\<lparr>params := w\<rparr>)"

text \<open>
  Modelled from the spec: the fit loop, missing with the framework. The spec (4.4) gives it
  as a state machine: each epoch runs the training step, which updates the parameters,
  then the validation check, which updates nothing; when there has been no improvement
  of the validation loss for \<open>patience\<close> consecutive epochs the training stops and the
  parameter snapshot of the best epoch is restored; training ends at the epoch limit or
  at the early stop, whichever comes first. The training step over \<open>loader_tr\<close> and the
  validation loss over \<open>loader_va\<close> are parameters. The restoring is what the flag
  \<open>restore_best_weights\<close> of the callback asks for; both scripts set it.
  \<open>fit_loop cb train_step val_loss remaining epoch m es\<close> runs the epochs \<open>epoch\<close>,
  \<open>epoch + 1\<close>, ... (\<open>remaining\<close> of them at most) from the model state \<open>m\<close> and the callback
  state \<open>es\<close>. Epochs are numbered from 0.
\<close>

fun fit_loop ::
  "EarlyStopping_args \<Rightarrow> (('w, 'o) model_state \<Rightarrow> ('w, 'o) model_state) \<Rightarrow> ('w \<Rightarrow> real) \<Rightarrow>
   nat \<Rightarrow> nat \<Rightarrow> ('w, 'o) model_state \<Rightarrow> 'w early_stopping \<Rightarrow>
   ('w, 'o) model_state \<times> 'w early_stopping \<times> training_end" where
  "fit_loop cb train_step val_loss 0 epoch m es = (m, es, EpochLimitReached)"
| "fit_loop cb train_step val_loss (Suc remaining) epoch m es =
     (let m' = train_step m;
          current = val_loss (params m')
      in if improved current (best es)
         then fit_loop cb train_step val_loss remaining (Suc epoch) m'
                \<lparr>best = Some current, wait = 0, best_weights = Some (params m')\<rparr>
         else if es_patience cb \<le> wait es + 1
         then ((if es_restore_best_weights cb then restore (best_weights es) m' else m'),
               es\<lparr>wait := wait es + 1\<rparr>, EarlyStopped epoch)
         else fit_loop cb train_step val_loss remaining (Suc epoch) m'
                (es\<lparr>wait := wait es + 1\<rparr>))"

definition fit ::
  "(('w, 'o) model_state \<Rightarrow> ('w, 'o) model_state) \<Rightarrow> ('w \<Rightarrow> real) \<Rightarrow> nat \<Rightarrow>
   EarlyStopping_args \<Rightarrow> ('w, 'o) model_state \<Rightarrow>
   ('w, 'o) model_state \<times> 'w early_stopping \<times> training_end" where
  "fit train_step val_loss epochs cb m =
     fit_loop cb train_step val_loss epochs 0 m
       \<lparr>best = None, wait = 0, best_weights = None\<rparr>"

text \<open>The calls of the two scripts.\<close>

definition gat_fit ::
  "(('w, 'o) model_state \<Rightarrow> ('w, 'o) model_state) \<Rightarrow> ('w \<Rightarrow> real) \<Rightarrow> ('w, 'o) model_state \<Rightarrow>
   ('w, 'o) model_state \<times> 'w early_stopping \<times> training_end" where
  "gat_fit train_step val_loss m =
     fit train_step val_loss gat_epochs
       \<lparr>es_patience = gat_patience, es_restore_best_weights = True\<rparr> m"

definition arma_fit ::
  "(('w, 'o) model_state \<Rightarrow> ('w, 'o) model_state) \<Rightarrow> ('w \<Rightarrow> real) \<Rightarrow> ('w, 'o) model_state \<Rightarrow>
   ('w, 'o) model_state \<times> 'w early_stopping \<times> training_end" where
  "arma_fit train_step val_loss m =
     fit train_step val_loss arma_epochs
       \<lparr>es_patience = arma_patience, es_restore_best_weights = True\<rparr> m"

text \<open>
  The model state at the end of epoch \<open>e\<close> when nothing stops the training, the snapshot
  the callback would take there, and the validation loss measured there.
\<close>

definition state_at ::
  "(('w, 'o) model_state \<Rightarrow> ('w, 'o) model_state) \<Rightarrow> ('w, 'o) model_state \<Rightarrow> nat \<Rightarrow>
   ('w, 'o) model_state" where
  "state_at train_step m e = (train_step ^^ Suc e) m"

definition snapshot_at ::
  "(('w, 'o) model_state \<Rightarrow> ('w, 'o) model_state) \<Rightarrow> ('w, 'o) model_state \<Rightarrow> nat \<Rightarrow> 'w" where
  "snapshot_at train_step m e = params (state_at train_step m e)"

definition val_loss_at ::
  "(('w, 'o) model_state \<Rightarrow> ('w, 'o) model_state) \<Rightarrow> ('w \<Rightarrow> real) \<Rightarrow> ('w, 'o) model_state \<Rightarrow>
   nat \<Rightarrow> real" where
  "val_loss_at train_step val_loss m e = val_loss (snapshot_at train_step m e)"

text \<open>
  Training is still running when epoch \<open>e\<close> starts: the same training, limited to the
  epochs before \<open>e\<close>, reaches its limit without an early stop.
\<close>

definition still_training ::
  "EarlyStopping_args \<Rightarrow> (('w, 'o) model_state \<Rightarrow> ('w, 'o) model_state) \<Rightarrow> ('w \<Rightarrow> real) \<Rightarrow>
   ('w, 'o) model_state \<Rightarrow> nat \<Rightarrow> bool" where
  "still_training cb train_step val_loss m e \<longleftrightarrow>
     snd (snd (fit train_step val_loss e cb m)) = EpochLimitReached"

text \<open>
  A synthetic run: the parameters count the epochs trained, and the validation loss
  is 1 at epoch 0, 2 from epoch 1 to epoch 100, 0 at epoch 101 and 2 ever after.
\<close>

definition plateau_step :: "(nat, unit) model_state \<Rightarrow> (nat, unit) model_state" where
  "plateau_step m = m\<lparr>params := Suc (params m)\<rparr>"

definition plateau_loss :: "nat \<Rightarrow> real" where
  "plateau_loss w = (if w = 1 then 1 else if w = 102 then 0 else 2)"

definition plateau_init :: "(nat, unit) model_state" where
  "plateau_init = \<lparr>params = 0, optimizer = ()\<rparr>"

text \<open>
  A second synthetic run: the validation loss is 3 at epoch 0, 1 at epoch 1 and 2 ever
  after.
\<close>

definition dip_loss :: "nat \<Rightarrow> real" where
  "dip_loss w = (if w = 1 then 3 else if w = 2 then 1 else 2)"

section \<open>Dropout placement\<close>

text \<open>
  C10. Dropout placement differs between the two scripts. In the attention script the
  features go from the raw input \<open>X_in\<close> through a dropout, the first attention layer, a
  second dropout and the output layer: both convolutions are fed by a dropout of rate
  0.6. In the ARMA script the features go from \<open>X_in\<close> straight into the first ARMA layer
  (its feature argument is not a dropout output), and through a single dropout of rate
  0.5 between the two layers. The same holds of the computed values, whatever
  functions the three layer classes compute.
\<close>

theorem dropout_placement:
  "feature_source (outputs (gat_model d)) = gat_X_in d \<and>
   feature_path (outputs (gat_model d)) =
     [Dropout (6 / 10), gat_layer_1, Dropout (6 / 10), gat_layer_2 d] \<and>
   conv_feature_dropouts (outputs (gat_model d)) = [Some (6 / 10), Some (6 / 10)] \<and>
   feature_source (outputs (arma_model d)) = arma_X_in d \<and>
   feature_path (outputs (arma_model d)) =
     [arma_layer_1, Dropout (5 / 10), arma_layer_2 d] \<and>
   conv_feature_dropouts (outputs (arma_model d)) = [None, Some (5 / 10)] \<and>
   conv_feature_dropouts (outputs (gat_model d)) \<noteq>
     conv_feature_dropouts (outputs (arma_model d)) \<and>
   run L env (outputs (gat_model d)) =
     Some (graph_attention_call L \<lparr>ga_channels = n_out d, ga_attn_heads = 1,
             ga_concat_heads = False, ga_dropout_rate = 6 / 10, ga_activation = Softmax,
             ga_kernel_regularizer = 5 / 10 ^ 6, ga_attn_kernel_regularizer = 5 / 10 ^ 6\<rparr>
       (dropout_call L (6 / 10)
         (graph_attention_call L \<lparr>ga_channels = 8, ga_attn_heads = 8,
             ga_concat_heads = True, ga_dropout_rate = 6 / 10, ga_activation = Elu,
             ga_kernel_regularizer = 5 / 10 ^ 6, ga_attn_kernel_regularizer = 5 / 10 ^ 6\<rparr>
           (dropout_call L (6 / 10) (env ''X_in''))
           (env ''A_in'')))
       (env ''A_in'')) \<and>
   run L env (outputs (arma_model d)) =
     Some (arma_conv_call L \<lparr>ac_channels = n_out d, ac_iterations = 1, ac_order = 1,
             ac_share_weights = True, ac_dropout_rate = 75 / 100, ac_activation = Softmax,
             ac_gcn_activation = None, ac_kernel_regularizer = 5 / 10 ^ 5\<rparr>
       (dropout_call L (5 / 10)
         (arma_conv_call L \<lparr>ac_channels = 16, ac_iterations = 1, ac_order = 2,
             ac_share_weights = True, ac_dropout_rate = 75 / 100, ac_activation = Elu,
             ac_gcn_activation = Some Elu, ac_kernel_regularizer = 5 / 10 ^ 5\<rparr>
           (env ''X_in'')
           (env ''fltr_in'')))
       (env ''fltr_in''))"
  by (simp add: gat_model_def gat_graph_attention_2_def gat_dropout_2_def
      gat_graph_attention_1_def gat_dropout_1_def gat_layer_1_def gat_layer_2_def
      gat_X_in_def gat_A_in_def gat_dropout_def gat_channels_def gat_n_attn_heads_def
      gat_l2_reg_def
      arma_model_def arma_gc_2_def arma_gc_2_dropout_def arma_gc_1_def arma_layer_1_def
      arma_layer_2_def arma_X_in_def arma_fltr_in_def arma_dropout_def arma_channels_def
      arma_iterations_def arma_order_def arma_share_weights_def arma_dropout_skip_def
      arma_l2_reg_def)

section \<open>Early stopping\<close>

text \<open>A run that reaches its epoch limit can be continued from where it ended.\<close>

lemma fit_loop_continue:
  "fit_loop cb ts vl a e m es = (m', es', EpochLimitReached) \<Longrightarrow>
   fit_loop cb ts vl (a + b) e m es = fit_loop cb ts vl b (e + a) m' es'"
proof (induction a arbitrary: e m es)
  case 0
  then show ?case by simp
next
  case (Suc a)
  then show ?case
    by (simp add: Let_def split: if_splits)
qed

text \<open>
  As long as nothing stops the training, the model state is the iterated training
  step, and the best loss of the callback is the one it started with or the loss of
  one of the epochs run.
\<close>

lemma fit_loop_unstopped:
  "fit_loop cb ts vl a e m es = (m', es', EpochLimitReached) \<Longrightarrow>
   m' = (ts ^^ a) m \<and>
   (best es' = best es \<or> (\<exists>j<a. best es' = Some (vl (params ((ts ^^ Suc j) m)))))"
proof (induction a arbitrary: e m es)
  case 0
  then show ?case by simp
next
  case (Suc a)
  let ?m1 = "ts m"
  show ?case
  proof (cases "improved (vl (params ?m1)) (best es)")
    case True
    with Suc.prems have "fit_loop cb ts vl a (Suc e) ?m1
        \<lparr>best = Some (vl (params ?m1)), wait = 0, best_weights = Some (params ?m1)\<rparr> =
        (m', es', EpochLimitReached)"
      by (simp add: Let_def)
    from Suc.IH[OF this] show ?thesis
      by (auto simp: funpow_swap1 intro: exI[of _ 0] dest: Suc_mono)
  next
    case False
    with Suc.prems have "fit_loop cb ts vl a (Suc e) ?m1 (es\<lparr>wait := wait es + 1\<rparr>) =
        (m', es', EpochLimitReached)"
      by (simp add: Let_def split: if_splits)
    from Suc.IH[OF this] show ?thesis
      by (auto simp: funpow_swap1 dest: Suc_mono)
  qed
qed


text \<open>
  With a best loss recorded and \<open>k\<close> more epochs of patience left, \<open>k\<close> epochs without
  improvement stop the training at the last of them and put the snapshot back.
\<close>

lemma fit_loop_plateau:
  "best es = Some l \<Longrightarrow> best_weights es = Some w \<Longrightarrow> wait es + k = es_patience cb \<Longrightarrow>
   0 < k \<Longrightarrow> k \<le> n \<Longrightarrow>
   (\<forall>j<k. \<not> vl (params ((ts ^^ Suc j) m)) < l) \<Longrightarrow>
   fit_loop cb ts vl n e m es =
     ((if es_restore_best_weights cb then ((ts ^^ k) m)\<lparr>params := w\<rparr> else (ts ^^ k) m),
      es\<lparr>wait := es_patience cb\<rparr>, EarlyStopped (e + k - 1))"
proof (induction k arbitrary: n e m es)
  case 0
  then show ?case by simp
next
  case (Suc k)
  from Suc.prems obtain n' where n: "n = Suc n'" "k \<le> n'"
    by (cases n) auto
  from Suc.prems have notimp: "\<not> improved (vl (params (ts m))) (best es)"
    by (auto simp: improved_def)
  show ?case
  proof (cases "k = 0")
    case True
    with Suc.prems notimp n show ?thesis
      by (simp add: Let_def restore_def)
  next
    case False
    let ?es = "es\<lparr>wait := wait es + 1\<rparr>"
    from False Suc.prems have cont: "\<not> es_patience cb \<le> wait es + 1"
      by auto
    have "fit_loop cb ts vl n' (Suc e) (ts m) ?es =
      ((if es_restore_best_weights cb then ((ts ^^ k) (ts m))\<lparr>params := w\<rparr> else (ts ^^ k) (ts m)),
       ?es\<lparr>wait := es_patience cb\<rparr>, EarlyStopped (Suc e + k - 1))"
    proof (rule Suc.IH)
      show "best ?es = Some l" using Suc.prems by simp
      show "best_weights ?es = Some w" using Suc.prems by simp
      show "wait ?es + k = es_patience cb" using Suc.prems by simp
      show "0 < k" using False by simp
      show "k \<le> n'" by (rule n)
      show "\<forall>j<k. \<not> vl (params ((ts ^^ Suc j) (ts m))) < l"
      proof (intro allI impI)
        fix j assume "j < k"
        then have "Suc j < Suc k" by simp
        with Suc.prems(6) have "\<not> vl (params ((ts ^^ Suc (Suc j)) m)) < l" by blast
        then show "\<not> vl (params ((ts ^^ Suc j) (ts m))) < l"
          by (simp add: funpow_swap1)
      qed
    qed
    with notimp cont n False show ?thesis
      by (simp add: Let_def funpow_swap1)
  qed
qed



lemma state_at_funpow: "(ts ^^ k) (state_at ts m b) = state_at ts m (b + k)"
proof -
  have "(ts ^^ k) ((ts ^^ Suc b) m) = (ts ^^ (k + Suc b)) m"
    by (simp only: funpow_add o_apply)
  also have "k + Suc b = Suc (b + k)"
    by simp
  finally show ?thesis
    by (simp only: state_at_def)
qed

text \<open>
  The general statement, for any epoch limit and any positive patience: \<open>patience\<close> epochs
  without improvement after an improving epoch \<open>b\<close> that the training reaches.
\<close>

lemma fit_early_stop:
  assumes running: "snd (snd (fit ts vl b cb m)) = EpochLimitReached"
    and better: "\<forall>e<b. val_loss_at ts vl m b < val_loss_at ts vl m e"
    and flat: "\<forall>k. 1 \<le> k \<and> k \<le> es_patience cb \<longrightarrow>
                 \<not> val_loss_at ts vl m (b + k) < val_loss_at ts vl m b"
    and pat: "0 < es_patience cb"
    and lim: "b + es_patience cb < epochs"
  shows "fit ts vl epochs cb m =
    ((if es_restore_best_weights cb
      then (state_at ts m (b + es_patience cb))\<lparr>params := snapshot_at ts m b\<rparr>
      else state_at ts m (b + es_patience cb)),
     \<lparr>best = Some (val_loss_at ts vl m b), wait = es_patience cb,
      best_weights = Some (snapshot_at ts m b)\<rparr>,
     EarlyStopped (b + es_patience cb))"
proof -
  let ?es0 = "\<lparr>best = None, wait = 0, best_weights = None\<rparr> :: 'a early_stopping"
  obtain mb esb r where run_b: "fit_loop cb ts vl b 0 m ?es0 = (mb, esb, r)"
    by (cases "fit_loop cb ts vl b 0 m ?es0") auto
  with running have r: "r = EpochLimitReached"
    by (simp add: fit_def)
  from fit_loop_unstopped[OF run_b[unfolded r]]
  have mb: "mb = (ts ^^ b) m"
    and bestb: "best esb = None \<or> (\<exists>j<b. best esb = Some (vl (params ((ts ^^ Suc j) m))))"
    by auto
  define n where "n = epochs - Suc b"
  have n: "epochs = b + Suc n" "es_patience cb \<le> n"
    using lim by (simp_all add: n_def)
  let ?m1 = "ts mb"
  let ?l = "vl (params ?m1)"
  have m1: "?m1 = state_at ts m b"
    by (simp add: mb state_at_def)
  have l: "?l = val_loss_at ts vl m b"
    by (simp add: m1 val_loss_at_def snapshot_at_def)
  have imp: "improved ?l (best esb)"
    using bestb
  proof
    assume "best esb = None"
    then show ?thesis by (simp add: improved_def)
  next
    assume "\<exists>j<b. best esb = Some (vl (params ((ts ^^ Suc j) m)))"
    then obtain j where j: "j < b" "best esb = Some (val_loss_at ts vl m j)"
      by (auto simp: val_loss_at_def snapshot_at_def state_at_def)
    with better show ?thesis
      by (simp add: improved_def l)
  qed
  let ?es1 = "\<lparr>best = Some ?l, wait = 0, best_weights = Some (params ?m1)\<rparr>"
  have "fit ts vl epochs cb m = fit_loop cb ts vl (Suc n) b mb esb"
    using fit_loop_continue[OF run_b[unfolded r], of "Suc n"] n by (simp add: fit_def)
  also have "\<dots> = fit_loop cb ts vl n (Suc b) ?m1 ?es1"
    using imp by (simp add: Let_def)
  also have "\<dots> =
     ((if es_restore_best_weights cb
       then ((ts ^^ es_patience cb) ?m1)\<lparr>params := params ?m1\<rparr>
       else (ts ^^ es_patience cb) ?m1),
      ?es1\<lparr>wait := es_patience cb\<rparr>, EarlyStopped (Suc b + es_patience cb - 1))"
  proof (rule fit_loop_plateau)
    show "best ?es1 = Some ?l" by simp
    show "best_weights ?es1 = Some (params ?m1)" by simp
    show "wait ?es1 + es_patience cb = es_patience cb" by simp
    show "0 < es_patience cb" by (rule pat)
    show "es_patience cb \<le> n" by (rule n)
    show "\<forall>j<es_patience cb. \<not> vl (params ((ts ^^ Suc j) ?m1)) < ?l"
    proof (intro allI impI)
      fix j assume "j < es_patience cb"
      then have "1 \<le> Suc j \<and> Suc j \<le> es_patience cb" by simp
      with flat have "\<not> val_loss_at ts vl m (b + Suc j) < val_loss_at ts vl m b"
        by blast
      moreover have "(ts ^^ Suc j) ?m1 = state_at ts m (b + Suc j)"
        unfolding m1 by (rule state_at_funpow)
      ultimately show "\<not> vl (params ((ts ^^ Suc j) ?m1)) < ?l"
        by (simp add: l val_loss_at_def snapshot_at_def)
    qed
  qed
  also have "(ts ^^ es_patience cb) ?m1 = state_at ts m (b + es_patience cb)"
    unfolding m1 by (rule state_at_funpow)
  finally show ?thesis
    by (simp add: m1 val_loss_at_def snapshot_at_def)
qed


text \<open>The synthetic runs.\<close>

lemma plateau_step_params: "params ((plateau_step ^^ n) m) = params m + n"
  by (induction n) (simp_all add: plateau_step_def)

lemma plateau_val_loss_at:
  "val_loss_at plateau_step vl plateau_init e = vl (Suc e)"
  by (simp add: val_loss_at_def snapshot_at_def state_at_def plateau_step_params
      plateau_init_def del: funpow.simps)

lemma plateau_run_outcome:
  "fit plateau_step plateau_loss 20000 \<lparr>es_patience = 100, es_restore_best_weights = True\<rparr>
     plateau_init =
   (\<lparr>params = 1, optimizer = ()\<rparr>,
    \<lparr>best = Some 1, wait = 100, best_weights = Some 1\<rparr>,
    EarlyStopped 100)"
proof -
  let ?cb = "\<lparr>es_patience = 100, es_restore_best_weights = True\<rparr>"
  have "fit plateau_step plateau_loss 20000 ?cb plateau_init =
    ((if es_restore_best_weights ?cb
      then (state_at plateau_step plateau_init (0 + es_patience ?cb))
             \<lparr>params := snapshot_at plateau_step plateau_init 0\<rparr>
      else state_at plateau_step plateau_init (0 + es_patience ?cb)),
     \<lparr>best = Some (val_loss_at plateau_step plateau_loss plateau_init 0),
      wait = es_patience ?cb,
      best_weights = Some (snapshot_at plateau_step plateau_init 0)\<rparr>,
     EarlyStopped (0 + es_patience ?cb))"
  proof (rule fit_early_stop)
    show "snd (snd (fit plateau_step plateau_loss 0 ?cb plateau_init)) = EpochLimitReached"
      by (simp add: fit_def)
    show "\<forall>e<0. val_loss_at plateau_step plateau_loss plateau_init 0
        < val_loss_at plateau_step plateau_loss plateau_init e"
      by simp
    show "\<forall>k. 1 \<le> k \<and> k \<le> es_patience ?cb \<longrightarrow>
        \<not> val_loss_at plateau_step plateau_loss plateau_init (0 + k)
          < val_loss_at plateau_step plateau_loss plateau_init 0"
      by (simp add: plateau_val_loss_at plateau_loss_def)
    show "0 < es_patience ?cb" by simp
    show "0 + es_patience ?cb < 20000" by simp
  qed
  moreover have "snapshot_at plateau_step plateau_init 0 = 1"
    by (simp add: snapshot_at_def state_at_def plateau_step_def plateau_init_def)
  moreover have "optimizer (state_at plateau_step plateau_init n) = ()" for n
    by simp
  ultimately show ?thesis
    by (simp add: plateau_val_loss_at plateau_loss_def)
qed

text \<open>
  C1, as amended. For every run of either training script (patience 100, at most 20000
  epochs): if the training is still running when epoch \<open>best_epoch\<close> starts, the
  validation loss of \<open>best_epoch\<close> is below that of every earlier epoch, and the
  validation loss fails to improve on it for the 101 epochs that follow (all of them within
  the epoch limit), then the training halts exactly at epoch \<open>best_epoch + 100\<close> and the
  model parameters after training are the snapshot taken at \<open>best_epoch\<close>.
\<close>

theorem early_stopping_halts_and_restores:
  assumes "still_training \<lparr>es_patience = 100, es_restore_best_weights = True\<rparr>
             train_step val_loss m best_epoch"
    and "\<forall>e<best_epoch. val_loss_at train_step val_loss m best_epoch
                          < val_loss_at train_step val_loss m e"
    and "\<forall>k. 1 \<le> k \<and> k \<le> 101 \<longrightarrow>
           \<not> val_loss_at train_step val_loss m (best_epoch + k)
             < val_loss_at train_step val_loss m best_epoch"
    and "best_epoch + 101 < 20000"
  shows "snd (snd (gat_fit train_step val_loss m)) = EarlyStopped (best_epoch + 100) \<and>
         params (fst (gat_fit train_step val_loss m)) = snapshot_at train_step m best_epoch \<and>
         snd (snd (arma_fit train_step val_loss m)) = EarlyStopped (best_epoch + 100) \<and>
         params (fst (arma_fit train_step val_loss m)) = snapshot_at train_step m best_epoch"
proof -
  let ?cb = "\<lparr>es_patience = 100, es_restore_best_weights = True\<rparr>"
  have "fit train_step val_loss 20000 ?cb m =
    ((if es_restore_best_weights ?cb
      then (state_at train_step m (best_epoch + es_patience ?cb))
             \<lparr>params := snapshot_at train_step m best_epoch\<rparr>
      else state_at train_step m (best_epoch + es_patience ?cb)),
     \<lparr>best = Some (val_loss_at train_step val_loss m best_epoch),
      wait = es_patience ?cb,
      best_weights = Some (snapshot_at train_step m best_epoch)\<rparr>,
     EarlyStopped (best_epoch + es_patience ?cb))"
  proof (rule fit_early_stop)
    show "snd (snd (fit train_step val_loss best_epoch ?cb m)) = EpochLimitReached"
      using assms(1) by (simp add: still_training_def)
    show "\<forall>e<best_epoch. val_loss_at train_step val_loss m best_epoch
        < val_loss_at train_step val_loss m e"
      by (rule assms(2))
    show "\<forall>k. 1 \<le> k \<and> k \<le> es_patience ?cb \<longrightarrow>
        \<not> val_loss_at train_step val_loss m (best_epoch + k)
          < val_loss_at train_step val_loss m best_epoch"
      using assms(3) by simp
    show "0 < es_patience ?cb" by simp
    show "best_epoch + es_patience ?cb < 20000"
      using assms(4) by simp
  qed
  then show ?thesis
    by (simp add: gat_fit_def arma_fit_def gat_epochs_def gat_patience_def
        arma_epochs_def arma_patience_def)
qed

text \<open>
  The theorem at the second synthetic run, whose best epoch is epoch 1: the training
  halts at epoch 101 with the parameters of the end of epoch 1.
\<close>

theorem early_stopping_halts_and_restores_witness:
  "still_training \<lparr>es_patience = 100, es_restore_best_weights = True\<rparr>
     plateau_step dip_loss plateau_init 1 \<and>
   snd (snd (gat_fit plateau_step dip_loss plateau_init)) = EarlyStopped 101 \<and>
   params (fst (gat_fit plateau_step dip_loss plateau_init)) = 2 \<and>
   snd (snd (arma_fit plateau_step dip_loss plateau_init)) = EarlyStopped 101 \<and>
   params (fst (arma_fit plateau_step dip_loss plateau_init)) = 2"
proof -
  have run: "still_training \<lparr>es_patience = 100, es_restore_best_weights = True\<rparr>
      plateau_step dip_loss plateau_init 1"
    by (simp add: still_training_def fit_def improved_def Let_def)
  have better: "\<forall>e<1. val_loss_at plateau_step dip_loss plateau_init 1
      < val_loss_at plateau_step dip_loss plateau_init e"
    by (simp add: plateau_val_loss_at dip_loss_def)
  have flat: "\<forall>k. 1 \<le> k \<and> k \<le> 101 \<longrightarrow>
      \<not> val_loss_at plateau_step dip_loss plateau_init (1 + k)
        < val_loss_at plateau_step dip_loss plateau_init 1"
    by (simp add: plateau_val_loss_at dip_loss_def)
  have lim: "(1::nat) + 101 < 20000"
    by simp
  have snap: "snapshot_at plateau_step plateau_init 1 = 2"
    by (simp add: snapshot_at_def state_at_def plateau_step_def plateau_init_def)
  from early_stopping_halts_and_restores[OF run better flat lim] run snap
  show ?thesis by simp
qed

text \<open>
  C1 as stated fails when an earlier stretch of 100 epochs without improvement has
  already stopped the training. In the first synthetic run the best validation loss
  occurs at epoch 101 and is never improved on afterwards, but the training halts at
  epoch 100, before that epoch is run, with the parameters of the end of epoch 0.
\<close>

theorem early_stopping_earlier_plateau_counterexample:
  "\<not> ((\<forall>e<20000. e \<noteq> 101 \<longrightarrow>
          val_loss_at plateau_step plateau_loss plateau_init 101
            < val_loss_at plateau_step plateau_loss plateau_init e) \<and>
       (\<forall>k. 1 \<le> k \<and> k \<le> 101 \<longrightarrow>
          \<not> val_loss_at plateau_step plateau_loss plateau_init (101 + k)
            < val_loss_at plateau_step plateau_loss plateau_init 101) \<and>
       101 + 101 < (20000::nat)
       \<longrightarrow>
       snd (snd (gat_fit plateau_step plateau_loss plateau_init)) = EarlyStopped (101 + 100) \<and>
       params (fst (gat_fit plateau_step plateau_loss plateau_init))
         = snapshot_at plateau_step plateau_init 101)"
proof -
  have best: "\<forall>e<20000. e \<noteq> 101 \<longrightarrow>
      val_loss_at plateau_step plateau_loss plateau_init 101
        < val_loss_at plateau_step plateau_loss plateau_init e"
    by (simp add: plateau_val_loss_at plateau_loss_def)
  have flat: "\<forall>k. 1 \<le> k \<and> k \<le> 101 \<longrightarrow>
      \<not> val_loss_at plateau_step plateau_loss plateau_init (101 + k)
        < val_loss_at plateau_step plateau_loss plateau_init 101"
    by (simp add: plateau_val_loss_at plateau_loss_def)
  have stop: "snd (snd (gat_fit plateau_step plateau_loss plateau_init)) = EarlyStopped 100"
    by (simp add: gat_fit_def gat_epochs_def gat_patience_def plateau_run_outcome)
  from best flat stop show ?thesis
    by simp
qed

end
